theory Spec2Isabelle
  imports Main "HOL-Library.Word"
begin

unbundle bit_operations_syntax

section \<open>The todo service of \<^verbatim>\<open>main.go\<close>\<close>

text \<open>
  The four handlers \<^verbatim>\<open>fetchTodos\<close>, \<^verbatim>\<open>createTodo\<close>, \<^verbatim>\<open>deleteTodo\<close> and
  \<^verbatim>\<open>updateTodo\<close> are embedded as functions from the request, the environment of the
  call (clock, identifier generator, faults of the storage and of the renderer) and the
  collection to an outcome: the calls of \<^verbatim>\<open>rnd.JSON\<close> in the order they were made, the
  collection afterwards, and how the handler ended (it returned, it panicked, or
  \<^verbatim>\<open>log.Fatal\<close> ended the process).

  The handlers call library functions whose code is not part of \<^verbatim>\<open>main.go\<close>
  (\<^verbatim>\<open>strings.TrimSpace\<close>, \<^verbatim>\<open>encoding/hex\<close>, \<^verbatim>\<open>encoding/json\<close>, \<^verbatim>\<open>bson\<close>,
  \<^verbatim>\<open>mgo\<close>, \<^verbatim>\<open>time.Format\<close>). Each is modelled below from its documented
  behaviour, and the text before each model says which behaviour that is.
\<close>

subsection \<open>Bytes, hexadecimal, object identifiers\<close>

type_synonym byte = "8 word"

text \<open>\<^verbatim>\<open>bson.ObjectId\<close> is a Go string holding raw bytes; a valid one holds 12.\<close>

type_synonym ObjectId = "byte list"

text \<open>
  \<^verbatim>\<open>encoding/hex\<close>: \<^verbatim>\<open>fromHexChar\<close> accepts \<^verbatim>\<open>0-9\<close>, \<^verbatim>\<open>a-f\<close> and \<^verbatim>\<open>A-F\<close>;
  \<^verbatim>\<open>DecodeString\<close> fails on an odd length and on any other byte; \<^verbatim>\<open>EncodeToString\<close>
  writes two lower-case digits per byte.
\<close>

definition fromHexChar :: "char \<Rightarrow> nat option" where
  "fromHexChar c =
     (let n = (of_char c :: nat) in
      if 48 \<le> n \<and> n \<le> 57 then Some (n - 48)
      else if 97 \<le> n \<and> n \<le> 102 then Some (n - 97 + 10)
      else if 65 \<le> n \<and> n \<le> 70 then Some (n - 65 + 10)
      else None)"

fun DecodeString :: "string \<Rightarrow> byte list option" where
  "DecodeString [] = Some []"
| "DecodeString [c] = None"
| "DecodeString (a # b # rest) =
     (case fromHexChar a of
        None \<Rightarrow> None
      | Some x \<Rightarrow>
          (case fromHexChar b of
             None \<Rightarrow> None
           | Some y \<Rightarrow>
               (case DecodeString rest of
                  None \<Rightarrow> None
                | Some d \<Rightarrow> Some (of_nat (16 * x + y) # d))))"

definition hextable :: string where
  "hextable = ''0123456789abcdef''"

definition EncodeToString :: "byte list \<Rightarrow> string" where
  "EncodeToString bs =
     concat (map (\<lambda>b. [hextable ! (unat b div 16), hextable ! (unat b mod 16)]) bs)"

text \<open>
  \<^verbatim>\<open>bson.IsObjectIdHex(s)\<close>: \<^verbatim>\<open>len(s) == 24\<close> and the hex decoding succeeds.
  \<^verbatim>\<open>bson.ObjectIdHex(s)\<close>: the decoded bytes, and a panic when the decoding fails or
  does not give 12 bytes; \<open>None\<close> is that panic. \<^verbatim>\<open>id.Hex()\<close> is the hex encoding.
\<close>

definition IsObjectIdHex :: "string \<Rightarrow> bool" where
  "IsObjectIdHex s = (if length s \<noteq> 24 then False else DecodeString s \<noteq> None)"

definition ObjectIdHex :: "string \<Rightarrow> ObjectId option" where
  "ObjectIdHex s =
     (case DecodeString s of
        None \<Rightarrow> None
      | Some d \<Rightarrow> if length d \<noteq> 12 then None else Some d)"

definition Hex :: "ObjectId \<Rightarrow> string" where
  "Hex oid = EncodeToString oid"

subsection \<open>\<^verbatim>\<open>strings.TrimSpace\<close>\<close>

text \<open>
  \<^verbatim>\<open>strings.TrimSpace\<close> removes from both ends every rune for which
  \<^verbatim>\<open>unicode.IsSpace\<close> holds: tab, LF, VT, FF, CR, space, U+0085, U+00A0, U+1680,
  U+2000 to U+200A, U+2028, U+2029, U+202F, U+205F and U+3000. A Go string is a
  sequence of bytes, so the runes are listed here in their UTF-8 encoding.
\<close>

definition space_runes :: "string list" where
  "space_runes =
     [[CHR 0x09], [CHR 0x0A], [CHR 0x0B], [CHR 0x0C], [CHR 0x0D], [CHR 0x20],
      [CHR 0xC2, CHR 0x85], [CHR 0xC2, CHR 0xA0],
      [CHR 0xE1, CHR 0x9A, CHR 0x80],
      [CHR 0xE2, CHR 0x80, CHR 0x80], [CHR 0xE2, CHR 0x80, CHR 0x81],
      [CHR 0xE2, CHR 0x80, CHR 0x82], [CHR 0xE2, CHR 0x80, CHR 0x83],
      [CHR 0xE2, CHR 0x80, CHR 0x84], [CHR 0xE2, CHR 0x80, CHR 0x85],
      [CHR 0xE2, CHR 0x80, CHR 0x86], [CHR 0xE2, CHR 0x80, CHR 0x87],
      [CHR 0xE2, CHR 0x80, CHR 0x88], [CHR 0xE2, CHR 0x80, CHR 0x89],
      [CHR 0xE2, CHR 0x80, CHR 0x8A],
      [CHR 0xE2, CHR 0x80, CHR 0xA8], [CHR 0xE2, CHR 0x80, CHR 0xA9],
      [CHR 0xE2, CHR 0x80, CHR 0xAF], [CHR 0xE2, CHR 0x81, CHR 0x9F],
      [CHR 0xE3, CHR 0x80, CHR 0x80]]"

text \<open>The number of bytes of the space rune a string starts with, 0 when it starts with none.\<close>

fun leading :: "string list \<Rightarrow> string \<Rightarrow> nat" where
  "leading [] s = 0"
| "leading (p # ps) s = (if take (length p) s = p then length p else leading ps s)"

text \<open>
  Dropping space runes from the front until there is none. Every rune of the list has a
  byte, so \<open>leading\<close> is 0 on the empty string already; the test \<open>s = []\<close> only makes
  that plain for the termination proof.
\<close>

function trim_left :: "string list \<Rightarrow> string \<Rightarrow> string" where
  "trim_left ps s =
     (let n = leading ps s in if n = 0 \<or> s = [] then s else trim_left ps (drop n s))"
  by pat_completeness auto
termination
  by (relation "measure (\<lambda>(ps, s). length s)") auto

definition TrimSpace :: "string \<Rightarrow> string" where
  "TrimSpace s = rev (trim_left (map rev space_runes) (rev (trim_left space_runes s)))"

subsection \<open>\<^verbatim>\<open>time.Time\<close> and the layout \<^verbatim>\<open>2006-01-02 15:04:05\<close>\<close>

text \<open>
  \<^verbatim>\<open>Format\<close> reads the wall clock of the time in its location, to the second; a time
  is modelled by these readings (\<^verbatim>\<open>t.Year()\<close>, \<^verbatim>\<open>t.Month()\<close>, ...). The zero
  \<^verbatim>\<open>time.Time\<close> is January 1 of year 1, 00:00:00.
\<close>

record Time =
  Year :: int
  Month :: nat
  Day :: nat
  Hour :: nat
  Minute :: nat
  Second :: nat

definition zero_Time :: Time where
  "zero_Time = \<lparr>Year = 1, Month = 1, Day = 1, Hour = 0, Minute = 0, Second = 0\<rparr>"

text \<open>The readings of a time the clock can show.\<close>

definition wall_clock :: "Time \<Rightarrow> bool" where
  "wall_clock t =
     (1 \<le> Month t \<and> Month t \<le> 12 \<and> 1 \<le> Day t \<and> Day t \<le> 31 \<and>
      Hour t < 24 \<and> Minute t < 60 \<and> Second t < 60)"

text \<open>
  \<^verbatim>\<open>appendInt(b, x, width)\<close> of package \<^verbatim>\<open>time\<close>: a minus sign for a negative
  number, then the decimal digits, padded with zeros on the left to \<^verbatim>\<open>width\<close>.
\<close>

definition digit :: "nat \<Rightarrow> char" where
  "digit d = ''0123456789'' ! d"

function digits :: "nat \<Rightarrow> string" where
  "digits n = (if n < 10 then [digit n] else digits (n div 10) @ [digit (n mod 10)])"
  by pat_completeness auto
termination
  by (relation "measure id") auto

definition appendInt :: "int \<Rightarrow> nat \<Rightarrow> string" where
  "appendInt x width =
     (let ds = digits (nat \<bar>x\<bar>)
      in (if x < 0 then ''-'' else []) @ replicate (width - length ds) (CHR ''0'') @ ds)"

text \<open>\<^verbatim>\<open>t.Format("2006-01-02 15:04:05")\<close>.\<close>

definition Format :: "Time \<Rightarrow> string" where
  "Format t =
     appendInt (Year t) 4 @ ''-'' @ appendInt (int (Month t)) 2 @ ''-'' @
     appendInt (int (Day t)) 2 @ '' '' @ appendInt (int (Hour t)) 2 @ '':'' @
     appendInt (int (Minute t)) 2 @ '':'' @ appendInt (int (Second t)) 2"

subsection \<open>The two records of \<^verbatim>\<open>main.go\<close>\<close>

text \<open>\<^verbatim>\<open>todoModel\<close>, the stored form (its fields carry the suffix \<open>_m\<close>).\<close>

record todoModel =
  ID_m :: ObjectId
  Title_m :: string
  Completed_m :: bool
  CreateAt_m :: Time

text \<open>\<^verbatim>\<open>todo\<close>, the wire form.\<close>

record todo =
  ID :: string
  Title :: string
  Completed :: bool
  CreateAt :: string

definition zero_todo :: todo where
  "zero_todo = \<lparr>ID = [], Title = [], Completed = False, CreateAt = []\<rparr>"

subsection \<open>\<^verbatim>\<open>json.NewDecoder(r.Body).Decode(&t)\<close>\<close>

text \<open>
  The bytes of a request body either are no JSON value (\<open>Malformed\<close>; the error
  \<open>SyntaxError\<close> stands for the \<^verbatim>\<open>*json.SyntaxError\<close> and for the \<^verbatim>\<open>io.EOF\<close> of an
  empty body) or spell one. \<^verbatim>\<open>Decode\<close> reads the whole value before it stores
  anything, so a malformed body leaves \<^verbatim>\<open>t\<close> as it was. On a well-formed value
  \<^verbatim>\<open>encoding/json\<close> stores what fits and goes on: a value of the wrong JSON type for
  its field is skipped, the first such mismatch is kept (\<^verbatim>\<open>saveError\<close>) and returned
  as an \<^verbatim>\<open>UnmarshalTypeError\<close> after the remaining members were stored. \<^verbatim>\<open>null\<close>
  stores nothing and is no error. A member's key selects the struct field whose
  \<^verbatim>\<open>json\<close> tag equals it, or else equals it up to case; unknown keys are skipped, and
  of two members for one field the later wins.
\<close>

datatype json =
  JNull
| JBool bool
| JNumber string
| JString string
| JArray "json list"
| JObject "(string \<times> json) list"

datatype body = Malformed | Wellformed json

datatype json_error = SyntaxError | UnmarshalTypeError string string

fun json_kind :: "json \<Rightarrow> string" where
  "json_kind JNull = ''null''"
| "json_kind (JBool b) = ''bool''"
| "json_kind (JNumber n) = ''number''"
| "json_kind (JString s) = ''string''"
| "json_kind (JArray xs) = ''array''"
| "json_kind (JObject kvs) = ''object''"

definition lower :: "char \<Rightarrow> char" where
  "lower c =
     (let n = (of_char c :: nat) in if 65 \<le> n \<and> n \<le> 90 then char_of (n + 32) else c)"

definition EqualFold :: "string \<Rightarrow> string \<Rightarrow> bool" where
  "EqualFold a b = (map lower a = map lower b)"

datatype field = field_id | field_title | field_completed | field_createAt

text \<open>The \<^verbatim>\<open>json\<close> tags of \<^verbatim>\<open>todo\<close>, in the order of the struct.\<close>

definition todo_fields :: "(string \<times> field) list" where
  "todo_fields =
     [(''id'', field_id), (''title'', field_title),
      (''completed'', field_completed), (''createAt'', field_createAt)]"

fun fold_field :: "(string \<times> field) list \<Rightarrow> string \<Rightarrow> field option" where
  "fold_field [] k = None"
| "fold_field ((n, f) # fs) k = (if EqualFold n k then Some f else fold_field fs k)"

definition find_field :: "string \<Rightarrow> field option" where
  "find_field k =
     (case map_of todo_fields k of
        Some f \<Rightarrow> Some f
      | None \<Rightarrow> fold_field todo_fields k)"

text \<open>Storing one member: the record afterwards, and whether the value fitted.\<close>

fun set_field :: "field \<Rightarrow> json \<Rightarrow> todo \<Rightarrow> todo \<times> bool" where
  "set_field f JNull t = (t, True)"
| "set_field field_id (JString s) t = (t\<lparr>ID := s\<rparr>, True)"
| "set_field field_title (JString s) t = (t\<lparr>Title := s\<rparr>, True)"
| "set_field field_createAt (JString s) t = (t\<lparr>CreateAt := s\<rparr>, True)"
| "set_field field_completed (JBool b) t = (t\<lparr>Completed := b\<rparr>, True)"
| "set_field f v t = (t, False)"

definition saveError :: "json_error option \<Rightarrow> json_error \<Rightarrow> json_error option" where
  "saveError saved e = (case saved of None \<Rightarrow> Some e | Some e0 \<Rightarrow> Some e0)"

fun object :: "(string \<times> json) list \<Rightarrow> todo \<Rightarrow> json_error option \<Rightarrow> todo \<times> json_error option" where
  "object [] t saved = (t, saved)"
| "object ((k, v) # kvs) t saved =
     (case find_field k of
        None \<Rightarrow> object kvs t saved
      | Some f \<Rightarrow>
          (case set_field f v t of
             (t', True) \<Rightarrow> object kvs t' saved
           | (t', False) \<Rightarrow> object kvs t' (saveError saved (UnmarshalTypeError (json_kind v) k))))"

definition unmarshal :: "json \<Rightarrow> todo \<Rightarrow> todo \<times> json_error option" where
  "unmarshal v t =
     (case v of
        JObject kvs \<Rightarrow> object kvs t None
      | JNull \<Rightarrow> (t, None)
      | _ \<Rightarrow> (t, Some (UnmarshalTypeError (json_kind v) [])))"

definition Decode :: "body \<Rightarrow> todo \<Rightarrow> todo \<times> json_error option" where
  "Decode b t = (case b of Malformed \<Rightarrow> (t, Some SyntaxError) | Wellformed v \<Rightarrow> unmarshal v t)"

subsection \<open>Documents of the collection\<close>

text \<open>
  A stored document is a BSON document: keys with values, here the values the service
  writes. \<^verbatim>\<open>bson\<close> marshals a \<^verbatim>\<open>todoModel\<close> under the keys of its struct tags and
  leaves \<^verbatim>\<open>_id\<close> out when the identifier is the empty string (\<^verbatim>\<open>omitempty\<close>).
  Unmarshalling goes through the document from front to back and stores each value in
  the field of its key, so of a repeated key the last value stands (the look-up in the
  reversed document); a field whose key is absent keeps its zero value, and so does a
  field whose value has another type. \<^verbatim>\<open>bson.ObjectId\<close>
  is a string type, so a string is read into the identifier and an identifier into the
  title, byte for byte; the service writes neither.
\<close>

datatype bson = BObjectId ObjectId | BString string | BBool bool | BTime Time

type_synonym document = "(string \<times> bson) list"

definition marshal :: "todoModel \<Rightarrow> document" where
  "marshal tm =
     (if ID_m tm = [] then [] else [(''_id'', BObjectId (ID_m tm))]) @
     [(''title'', BString (Title_m tm)),
      (''completed'', BBool (Completed_m tm)),
      (''createAt'', BTime (CreateAt_m tm))]"

definition bytes_of :: "string \<Rightarrow> byte list" where
  "bytes_of s = map (\<lambda>c. of_nat (of_char c)) s"

definition string_of :: "byte list \<Rightarrow> string" where
  "string_of bs = map (\<lambda>b. char_of (unat b)) bs"

definition unmarshal_todoModel :: "document \<Rightarrow> todoModel" where
  "unmarshal_todoModel d =
     \<lparr>ID_m = (case map_of (rev d) ''_id'' of
                Some (BObjectId i) \<Rightarrow> i
              | Some (BString s) \<Rightarrow> bytes_of s
              | _ \<Rightarrow> []),
      Title_m = (case map_of (rev d) ''title'' of
                   Some (BString s) \<Rightarrow> s
                 | Some (BObjectId i) \<Rightarrow> string_of i
                 | _ \<Rightarrow> []),
      Completed_m = (case map_of (rev d) ''completed'' of Some (BBool b) \<Rightarrow> b | _ \<Rightarrow> False),
      CreateAt_m = (case map_of (rev d) ''createAt'' of Some (BTime t) \<Rightarrow> t | _ \<Rightarrow> zero_Time)\<rparr>"

subsection \<open>The environment of a call, and the storage operations of \<^verbatim>\<open>mgo\<close>\<close>

text \<open>
  What a handler reads from outside: \<^verbatim>\<open>time.Now()\<close>, the identifier
  \<^verbatim>\<open>bson.NewObjectId()\<close> returns, the identifier the server gives a document inserted
  without one, whether the storage call of this request fails on the way to the server
  (with the message of the error), whether \<^verbatim>\<open>rnd.JSON\<close> fails to write, and the
  order in which this call iterates over the two keys of the update map of
  \<^verbatim>\<open>updateTodo\<close> (a Go map has no fixed order, and \<^verbatim>\<open>bson\<close> marshals a
  \<^verbatim>\<open>bson.M\<close> in the order of the iteration).
\<close>

record env =
  Now :: Time
  NewObjectId :: ObjectId
  server_id :: ObjectId
  storage_fault :: "string option"
  render_fault :: "string option"
  title_first :: bool

datatype mgo_error = ErrNotFound | DuplicateKey | Failure string

text \<open>\<^verbatim>\<open>err.Error()\<close>; the server's duplicate-key message is abbreviated to its code.\<close>

fun Error :: "mgo_error \<Rightarrow> string" where
  "Error ErrNotFound = ''not found''"
| "Error DuplicateKey = ''E11000 duplicate key error''"
| "Error (Failure msg) = msg"

definition has_id :: "ObjectId \<Rightarrow> document \<Rightarrow> bool" where
  "has_id oid d = (map_of d ''_id'' = Some (BObjectId oid))"

text \<open>
  \<^verbatim>\<open>Find(bson.M{}).All(&todos)\<close>: every document of the collection, in the order of the
  scan, unmarshalled; on an error \<^verbatim>\<open>todos\<close> stays \<^verbatim>\<open>nil\<close>.
\<close>

definition Find_All :: "env \<Rightarrow> document list \<Rightarrow> mgo_error option \<times> todoModel list" where
  "Find_All e docs =
     (case storage_fault e of
        Some msg \<Rightarrow> (Some (Failure msg), [])
      | None \<Rightarrow> (None, map unmarshal_todoModel docs))"

text \<open>
  \<^verbatim>\<open>Insert(&tm)\<close>: the server gives a document without \<^verbatim>\<open>_id\<close> one, refuses a
  document whose \<^verbatim>\<open>_id\<close> is in the collection already (the unique index on
  \<^verbatim>\<open>_id\<close>), and stores any other.
\<close>

definition Insert :: "env \<Rightarrow> document \<Rightarrow> document list \<Rightarrow> mgo_error option \<times> document list" where
  "Insert e d docs =
     (case storage_fault e of
        Some msg \<Rightarrow> (Some (Failure msg), docs)
      | None \<Rightarrow>
          (let d' = (case map_of d ''_id'' of
                       None \<Rightarrow> (''_id'', BObjectId (server_id e)) # d
                     | Some i \<Rightarrow> d)
           in if list_ex (\<lambda>x. map_of x ''_id'' = map_of d' ''_id'') docs
              then (Some DuplicateKey, docs)
              else (None, docs @ [d'])))"

text \<open>
  \<^verbatim>\<open>RemoveId(id)\<close> removes the document with that \<^verbatim>\<open>_id\<close>. The session
  \<^verbatim>\<open>mgo.Dial\<close> returns is in safe mode, where removing or updating a document that is
  not there returns \<^verbatim>\<open>ErrNotFound\<close>.
\<close>

fun remove_first :: "('a \<Rightarrow> bool) \<Rightarrow> 'a list \<Rightarrow> 'a list" where
  "remove_first P [] = []"
| "remove_first P (x # xs) = (if P x then xs else x # remove_first P xs)"

definition RemoveId :: "env \<Rightarrow> ObjectId \<Rightarrow> document list \<Rightarrow> mgo_error option \<times> document list" where
  "RemoveId e oid docs =
     (case storage_fault e of
        Some msg \<Rightarrow> (Some (Failure msg), docs)
      | None \<Rightarrow>
          if list_ex (has_id oid) docs then (None, remove_first (has_id oid) docs)
          else (Some ErrNotFound, docs))"

text \<open>
  \<^verbatim>\<open>Update(bson.M{"_id": id}, update)\<close> with an update document that has plain fields
  and no update operator (\<^verbatim>\<open>$set\<close> and the like), which is the only kind
  \<^verbatim>\<open>main.go\<close> passes: MongoDB replaces the first matching document by the update
  document, keeping only its \<^verbatim>\<open>_id\<close>.
\<close>

fun replace_first :: "('a \<Rightarrow> bool) \<Rightarrow> 'a \<Rightarrow> 'a list \<Rightarrow> 'a list" where
  "replace_first P y [] = []"
| "replace_first P y (x # xs) = (if P x then y # xs else x # replace_first P y xs)"

definition Update :: "env \<Rightarrow> ObjectId \<Rightarrow> document \<Rightarrow> document list \<Rightarrow> mgo_error option \<times> document list" where
  "Update e oid upd docs =
     (case storage_fault e of
        Some msg \<Rightarrow> (Some (Failure msg), docs)
      | None \<Rightarrow>
          if list_ex (has_id oid) docs
          then (None, replace_first (has_id oid) ((''_id'', BObjectId oid) # upd) docs)
          else (Some ErrNotFound, docs))"

subsection \<open>Responses and outcomes\<close>

text \<open>
  \<^verbatim>\<open>rnd.JSON(w, status, v)\<close> sets the status and writes \<^verbatim>\<open>v\<close> as JSON. \<^verbatim>\<open>v\<close> is a
  \<^verbatim>\<open>renderer.M\<close> (keys with values) or, for a decoding error, the error itself. The
  list of todos under \<^verbatim>\<open>data\<close> is a Go slice, \<^verbatim>\<open>nil\<close> when nothing was appended.
\<close>

datatype val = VString string | VError mgo_error | VTodos "todo list"

datatype payload = M "(string \<times> val) list" | DecodeError json_error

record response =
  status :: nat
  payload :: payload

definition StatusOK :: nat where "StatusOK = 200"
definition StatusBadRequest :: nat where "StatusBadRequest = 400"
definition StatusProcessing :: nat where "StatusProcessing = 102"

definition JSON :: "nat \<Rightarrow> payload \<Rightarrow> response" where
  "JSON st v = \<lparr>status = st, payload = v\<rparr>"

text \<open>
  How a handler ends: it returns; it panics (\<^verbatim>\<open>bson.ObjectIdHex\<close> on a string that is
  no identifier); or \<^verbatim>\<open>checkErr\<close> calls \<^verbatim>\<open>log.Fatal\<close>, which ends the process.
\<close>

datatype ending = Returned | Panicked | Fatal string

record outcome =
  written :: "response list"
  store :: "document list"
  ending :: ending

record request =
  URLParam_id :: string
  Body :: body

subsection \<open>The handlers\<close>

text \<open>
  \<^verbatim>\<open>fetchTodos\<close>: an error of the scan is answered and the handler goes on with the
  \<^verbatim>\<open>nil\<close> slice; only the error of the last \<^verbatim>\<open>rnd.JSON\<close> is checked.
\<close>

definition fetchTodos :: "env \<Rightarrow> request \<Rightarrow> document list \<Rightarrow> outcome" where
  "fetchTodos e r docs =
     (case Find_All e docs of
        (err, todos) \<Rightarrow>
          (let w1 = (case err of
                       Some x \<Rightarrow>
                         [JSON StatusProcessing
                            (M [(''message'', VString ''error fetching todos''),
                                (''error'', VString (Error x))])]
                     | None \<Rightarrow> []);
               todoList = map (\<lambda>t. \<lparr>ID = Hex (ID_m t), Title = Title_m t,
                                     Completed = Completed_m t,
                                     CreateAt = Format (CreateAt_m t)\<rparr>) todos;
               w2 = w1 @ [JSON StatusOK (M [(''data'', VTodos todoList)])]
           in \<lparr>written = w2, store = docs,
               ending = (case render_fault e of Some msg \<Rightarrow> Fatal msg | None \<Rightarrow> Returned)\<rparr>))"

text \<open>
  \<^verbatim>\<open>createTodo\<close>: a decoding error is answered and ends the call. The answer to an
  empty title is not followed by a \<^verbatim>\<open>return\<close>, so the handler goes on to the insert.
\<close>

definition createTodo :: "env \<Rightarrow> request \<Rightarrow> document list \<Rightarrow> outcome" where
  "createTodo e r docs =
     (case Decode (Body r) zero_todo of
        (t, Some err) \<Rightarrow>
          \<lparr>written = [JSON StatusProcessing (DecodeError err)], store = docs, ending = Returned\<rparr>
      | (t, None) \<Rightarrow>
          (let w1 = (if Title t = []
                     then [JSON StatusBadRequest (M [(''message'', VString ''title is required'')])]
                     else []);
               tm = \<lparr>ID_m = NewObjectId e, Title_m = Title t, Completed_m = False,
                     CreateAt_m = Now e\<rparr>
           in case Insert e (marshal tm) docs of
                (Some err, docs') \<Rightarrow>
                  \<lparr>written = w1 @ [JSON StatusProcessing
                                      (M [(''message'', VString ''error creating todo''),
                                          (''error'', VString (Error err))])],
                   store = docs', ending = Returned\<rparr>
              | (None, docs') \<Rightarrow>
                  \<lparr>written = w1 @ [JSON StatusOK
                                      (M [(''message'', VString ''todo created successfully''),
                                          (''todo_id'', VString (Hex (ID_m tm)))])],
                   store = docs', ending = Returned\<rparr>))"

text \<open>
  \<^verbatim>\<open>deleteTodo\<close>: the removal and both of its answers stand inside the branch of the
  invalid identifier, after the answer \<^verbatim>\<open>The id is invalid\<close>; for a valid identifier the
  handler does nothing.
\<close>

definition deleteTodo :: "env \<Rightarrow> request \<Rightarrow> document list \<Rightarrow> outcome" where
  "deleteTodo e r docs =
     (let id = TrimSpace (URLParam_id r)
      in if \<not> IsObjectIdHex id
         then
           (let w1 = [JSON StatusBadRequest (M [(''message'', VString ''The id is invalid'')])]
            in case ObjectIdHex id of
                 None \<Rightarrow> \<lparr>written = w1, store = docs, ending = Panicked\<rparr>
               | Some oid \<Rightarrow>
                   (case RemoveId e oid docs of
                      (Some err, docs') \<Rightarrow>
                        \<lparr>written = w1 @ [JSON StatusProcessing
                                            (M [(''message'', VString ''error deleting todo''),
                                                (''error'', VString (Error err))])],
                         store = docs', ending = Returned\<rparr>
                    | (None, docs') \<Rightarrow>
                        \<lparr>written = w1 @ [JSON StatusOK
                                            (M [(''message'', VString ''todo deleted successfully'')])],
                         store = docs', ending = Returned\<rparr>))
         else \<lparr>written = [], store = docs, ending = Returned\<rparr>)"

text \<open>\<^verbatim>\<open>bson.M{"title": t.Title, "completed": t.Completed}\<close> as marshalled in this call.\<close>

definition update_M :: "env \<Rightarrow> todo \<Rightarrow> document" where
  "update_M e t =
     (if title_first e
      then [(''title'', BString (Title t)), (''completed'', BBool (Completed t))]
      else [(''completed'', BBool (Completed t)), (''title'', BString (Title t))])"

text \<open>
  \<^verbatim>\<open>updateTodo\<close>: neither the answer to an invalid identifier nor the answer to a
  decoding error ends the call; the answer to an empty title does. The arguments of
  \<^verbatim>\<open>Update\<close> are evaluated before the call, so a panic of \<^verbatim>\<open>bson.ObjectIdHex\<close> comes
  before any write.
\<close>

definition updateTodo :: "env \<Rightarrow> request \<Rightarrow> document list \<Rightarrow> outcome" where
  "updateTodo e r docs =
     (let id = TrimSpace (URLParam_id r);
          w1 = (if \<not> IsObjectIdHex id
                then [JSON StatusBadRequest (M [(''message'', VString ''The id is invalid'')])]
                else [])
      in case Decode (Body r) zero_todo of
           (t, derr) \<Rightarrow>
             (let w2 = w1 @ (case derr of
                               Some err \<Rightarrow> [JSON StatusProcessing (DecodeError err)]
                             | None \<Rightarrow> [])
              in if Title t = []
                 then \<lparr>written = w2 @ [JSON StatusBadRequest
                                          (M [(''message'', VString ''the title field is required'')])],
                       store = docs, ending = Returned\<rparr>
                 else
                   (case ObjectIdHex id of
                      None \<Rightarrow> \<lparr>written = w2, store = docs, ending = Panicked\<rparr>
                    | Some oid \<Rightarrow>
                        (case Update e oid (update_M e t) docs of
                           (Some err, docs') \<Rightarrow>
                             \<lparr>written = w2 @ [JSON StatusProcessing
                                                 (M [(''message'', VString ''failed to update todo''),
                                                     (''error'', VError err)])],
                              store = docs', ending = Returned\<rparr>
                         | (None, docs') \<Rightarrow>
                             \<lparr>written = w2, store = docs', ending = Returned\<rparr>))))"

text \<open>The invariant of the data model: no stored record has an empty title.\<close>

definition titles_nonempty :: "document list \<Rightarrow> bool" where
  "titles_nonempty docs = list_all (\<lambda>d. Title_m (unmarshal_todoModel d) \<noteq> []) docs"

subsection \<open>The shape \<^verbatim>\<open>YYYY-MM-DD HH:MM:SS\<close>\<close>

text \<open>
  A string has the shape when, with every decimal digit replaced by \<^verbatim>\<open>9\<close>, it reads
  \<^verbatim>\<open>9999-99-99 99:99:99\<close>.
\<close>

definition mask_digit :: "char \<Rightarrow> char" where
  "mask_digit c = (if c \<in> set ''0123456789'' then CHR ''9'' else c)"

definition is_layout :: "string \<Rightarrow> bool" where
  "is_layout s = (map mask_digit s = ''9999-99-99 99:99:99'')"

definition four_digit_year :: "Time \<Rightarrow> bool" where
  "four_digit_year t = (0 \<le> Year t \<and> Year t \<le> 9999)"

subsection \<open>Concrete requests and collections\<close>

definition id1 :: string where
  "id1 = ''5f1d7f3e8b2a4c0012345678''"

definition oid1 :: ObjectId where
  "oid1 = [0x5f, 0x1d, 0x7f, 0x3e, 0x8b, 0x2a, 0x4c, 0x00, 0x12, 0x34, 0x56, 0x78]"

definition clock1 :: Time where
  "clock1 = \<lparr>Year = 2024, Month = 3, Day = 9, Hour = 7, Minute = 5, Second = 0\<rparr>"

text \<open>
  A call with no fault, at \<open>clock1\<close>, in which \<^verbatim>\<open>bson.NewObjectId()\<close> returns \<open>oid1\<close>
  and the update map is iterated title first.
\<close>

definition env1 :: env where
  "env1 = \<lparr>Now = clock1, NewObjectId = oid1, server_id = replicate 12 0,
           storage_fault = None, render_fault = None, title_first = True\<rparr>"

text \<open>\<^verbatim>\<open>GET /todo/\<close>; a request without a body has no JSON value to decode.\<close>

definition get_list :: request where
  "get_list = \<lparr>URLParam_id = [], Body = Malformed\<rparr>"

text \<open>\<^verbatim>\<open>POST /todo/ {"title":"buy milk"}\<close> and \<^verbatim>\<open>POST /todo/ {"title":""}\<close>.\<close>

definition post_milk :: request where
  "post_milk = \<lparr>URLParam_id = [], Body = Wellformed (JObject [(''title'', JString ''buy milk'')])\<rparr>"

definition post_empty :: request where
  "post_empty = \<lparr>URLParam_id = [], Body = Wellformed (JObject [(''title'', JString [])])\<rparr>"

text \<open>
  \<^verbatim>\<open>POST /todo/ {"id":"abc","title":"buy milk","completed":true,"createAt":"never"}\<close>.
\<close>

definition post_full :: request where
  "post_full =
     \<lparr>URLParam_id = [],
      Body = Wellformed (JObject [(''id'', JString ''abc''), (''title'', JString ''buy milk''),
                                  (''completed'', JBool True), (''createAt'', JString ''never'')])\<rparr>"

text \<open>\<^verbatim>\<open>POST /todo/ {"title":"buy milk","completed":"yes"}\<close>.\<close>

definition post_mistyped :: request where
  "post_mistyped =
     \<lparr>URLParam_id = [],
      Body = Wellformed (JObject [(''title'', JString ''buy milk''),
                                  (''completed'', JString ''yes'')])\<rparr>"

text \<open>\<^verbatim>\<open>DELETE /todo/5f1d7f3e8b2a4c0012345678\<close> and \<^verbatim>\<open>DELETE /todo/abc\<close>.\<close>

definition delete_id1 :: request where
  "delete_id1 = \<lparr>URLParam_id = id1, Body = Malformed\<rparr>"

definition delete_abc :: request where
  "delete_abc = \<lparr>URLParam_id = ''abc'', Body = Malformed\<rparr>"

text \<open>
  \<^verbatim>\<open>PUT /todo/5f1d7f3e8b2a4c0012345678\<close> and \<^verbatim>\<open>PUT /todo/abc\<close> with the body
  \<^verbatim>\<open>{"title":"buy bread","completed":true}\<close>; the first path with the body
  \<^verbatim>\<open>{"title":"buy bread","completed":"yes"}\<close>, and with a body that is no JSON.
\<close>

definition bread :: body where
  "bread = Wellformed (JObject [(''title'', JString ''buy bread''), (''completed'', JBool True)])"

definition put_bread :: request where
  "put_bread = \<lparr>URLParam_id = id1, Body = bread\<rparr>"

definition put_abc :: request where
  "put_abc = \<lparr>URLParam_id = ''abc'', Body = bread\<rparr>"



text \<open>The collection after \<open>post_milk\<close> on the empty collection.\<close>

definition db1 :: "document list" where
  "db1 = [[(''_id'', BObjectId oid1), (''title'', BString ''buy milk''),
           (''completed'', BBool False), (''createAt'', BTime clock1)]]"

section \<open>Properties\<close>

declare digits.simps [simp del]
declare trim_left.simps [simp del]

subsection \<open>Identifiers\<close>

lemma DecodeString_length: "DecodeString s = Some d \<Longrightarrow> length s = 2 * length d"
  by (induction s arbitrary: d rule: DecodeString.induct) (auto split: option.splits)

text \<open>\<^verbatim>\<open>bson.ObjectIdHex\<close> panics on exactly the strings \<^verbatim>\<open>bson.IsObjectIdHex\<close> rejects.\<close>

lemma ObjectIdHex_invalid: "\<not> IsObjectIdHex s \<Longrightarrow> ObjectIdHex s = None"
  by (auto simp: IsObjectIdHex_def ObjectIdHex_def split: option.splits if_splits
      dest: DecodeString_length)

lemma ObjectIdHex_valid: "IsObjectIdHex s \<Longrightarrow> \<exists>oid. ObjectIdHex s = Some oid \<and> length oid = 12"
  by (auto simp: IsObjectIdHex_def ObjectIdHex_def split: option.splits if_splits
      dest: DecodeString_length)

lemma TrimSpace_id1: "TrimSpace id1 = id1"
  by (simp add: TrimSpace_def space_runes_def id1_def trim_left.simps)

lemma TrimSpace_abc: "TrimSpace ''abc'' = ''abc''"
  by (simp add: TrimSpace_def space_runes_def trim_left.simps)

lemma id1_valid: "IsObjectIdHex id1"
  by (simp add: IsObjectIdHex_def id1_def fromHexChar_def)

lemma abc_invalid: "\<not> IsObjectIdHex ''abc''"
  by (simp add: IsObjectIdHex_def)

lemma ObjectIdHex_id1: "ObjectIdHex id1 = Some oid1"
  by (simp add: ObjectIdHex_def id1_def oid1_def fromHexChar_def)

lemma Hex_oid1: "Hex oid1 = id1"
  by (simp add: Hex_def EncodeToString_def hextable_def id1_def oid1_def)

lemma db1_reached: "store (createTodo env1 post_milk []) = db1"
  by (simp add: createTodo_def post_milk_def env1_def db1_def Decode_def unmarshal_def
      find_field_def todo_fields_def zero_todo_def Insert_def marshal_def oid1_def)

subsection \<open>Delete\<close>

text \<open>
  C2. The claim: for every syntactically valid identifier, delete removes the record with
  that identifier and answers 200 with a message. The handler does the opposite: for
  every valid identifier \<^verbatim>\<open>deleteTodo\<close> writes no answer and leaves the collection as
  it was, because the removal stands inside the branch of the invalid identifier.
\<close>

theorem deleteTodo_valid_id_does_nothing:
  "IsObjectIdHex (TrimSpace (URLParam_id r)) \<Longrightarrow>
   deleteTodo e r docs = \<lparr>written = [], store = docs, ending = Returned\<rparr>"
  by (simp add: deleteTodo_def)

theorem deleteTodo_valid_id_does_nothing_witness:
  "IsObjectIdHex (TrimSpace (URLParam_id delete_id1)) \<and>
   list_ex (has_id oid1) db1 \<and>
   deleteTodo env1 delete_id1 db1 = \<lparr>written = [], store = db1, ending = Returned\<rparr>"
proof -
  have valid: "IsObjectIdHex (TrimSpace (URLParam_id delete_id1))"
    by (simp add: delete_id1_def TrimSpace_id1 id1_valid)
  have "list_ex (has_id oid1) db1"
    by (simp add: db1_def has_id_def)
  with valid deleteTodo_valid_id_does_nothing [OF valid, of env1 db1] show ?thesis
    by simp
qed

text \<open>
  C4. The claim: for every syntactically invalid identifier, update and delete each return
  a bad-request outcome and perform no storage write. What the handlers do: neither
  writes to the collection, and each answers \<^verbatim>\<open>The id is invalid\<close> with status 400
  first; but \<^verbatim>\<open>deleteTodo\<close> then always panics in \<^verbatim>\<open>bson.ObjectIdHex\<close>, and
  \<^verbatim>\<open>updateTodo\<close> panics there whenever the decoded title is not empty, so the handler
  does not return.
\<close>

theorem invalid_id_no_write_but_panic:
  assumes "\<not> IsObjectIdHex (TrimSpace (URLParam_id r))"
  shows "deleteTodo e r docs =
           \<lparr>written = [JSON StatusBadRequest (M [(''message'', VString ''The id is invalid'')])],
            store = docs, ending = Panicked\<rparr> \<and>
         store (updateTodo e r docs) = docs \<and>
         hd (written (updateTodo e r docs)) =
           JSON StatusBadRequest (M [(''message'', VString ''The id is invalid'')]) \<and>
         ending (updateTodo e r docs) =
           (if Title (fst (Decode (Body r) zero_todo)) = [] then Returned else Panicked)"
proof -
  from assms have panic: "ObjectIdHex (TrimSpace (URLParam_id r)) = None"
    by (rule ObjectIdHex_invalid)
  have "deleteTodo e r docs =
          \<lparr>written = [JSON StatusBadRequest (M [(''message'', VString ''The id is invalid'')])],
           store = docs, ending = Panicked\<rparr>"
    using assms panic by (simp add: deleteTodo_def)
  moreover have "store (updateTodo e r docs) = docs"
    using assms panic by (simp add: updateTodo_def Let_def split: prod.splits)
  moreover have "hd (written (updateTodo e r docs)) =
          JSON StatusBadRequest (M [(''message'', VString ''The id is invalid'')])"
    using assms panic by (simp add: updateTodo_def Let_def split: prod.splits)
  moreover have "ending (updateTodo e r docs) =
          (if Title (fst (Decode (Body r) zero_todo)) = [] then Returned else Panicked)"
    using assms panic by (simp add: updateTodo_def Let_def split: prod.splits)
  ultimately show ?thesis by simp
qed

theorem invalid_id_no_write_but_panic_witness:
  "\<not> IsObjectIdHex (TrimSpace (URLParam_id delete_abc)) \<and>
   deleteTodo env1 delete_abc db1 =
     \<lparr>written = [JSON StatusBadRequest (M [(''message'', VString ''The id is invalid'')])],
      store = db1, ending = Panicked\<rparr> \<and>
   \<not> IsObjectIdHex (TrimSpace (URLParam_id put_abc)) \<and>
   store (updateTodo env1 put_abc db1) = db1 \<and>
   ending (updateTodo env1 put_abc db1) = Panicked"
proof -
  have d: "\<not> IsObjectIdHex (TrimSpace (URLParam_id delete_abc))"
    by (simp add: delete_abc_def TrimSpace_abc abc_invalid)
  have u: "\<not> IsObjectIdHex (TrimSpace (URLParam_id put_abc))"
    by (simp add: put_abc_def TrimSpace_abc abc_invalid)
  have "Title (fst (Decode (Body put_abc) zero_todo)) \<noteq> []"
    by (simp add: put_abc_def bread_def Decode_def unmarshal_def find_field_def
        todo_fields_def zero_todo_def)
  with d u invalid_id_no_write_but_panic [OF d, of env1 db1]
    invalid_id_no_write_but_panic [OF u, of env1 db1]
  show ?thesis by simp
qed

text \<open>
  C7. The claim: after the delete of an existing identifier a list no longer contains it,
  and a second delete of the same identifier gives an error outcome, not a silent
  success. On \<open>db1\<close> the delete of its record changes nothing, the list still shows the
  record, and the second delete is as silent as the first: no answer is written, so the
  server sends its default empty 200.
\<close>

theorem deleteTodo_twice_keeps_record:
  "store (deleteTodo env1 delete_id1 db1) = db1 \<and>
   written (fetchTodos env1 get_list (store (deleteTodo env1 delete_id1 db1))) =
     [JSON StatusOK (M [(''data'', VTodos [\<lparr>ID = id1, Title = ''buy milk'', Completed = False,
                                             CreateAt = ''2024-03-09 07:05:00''\<rparr>])])] \<and>
   deleteTodo env1 delete_id1 (store (deleteTodo env1 delete_id1 db1)) =
     \<lparr>written = [], store = db1, ending = Returned\<rparr>"
proof -
  have del: "deleteTodo env1 delete_id1 docs = \<lparr>written = [], store = docs, ending = Returned\<rparr>"
    for docs
    by (simp add: deleteTodo_def delete_id1_def TrimSpace_id1 id1_valid)
  have "Format clock1 = ''2024-03-09 07:05:00''"
    by (simp add: Format_def clock1_def appendInt_def digits.simps digit_def)
  then have "written (fetchTodos env1 get_list db1) =
     [JSON StatusOK (M [(''data'', VTodos [\<lparr>ID = id1, Title = ''buy milk'', Completed = False,
                                             CreateAt = ''2024-03-09 07:05:00''\<rparr>])])]"
    by (simp add: fetchTodos_def Find_All_def env1_def db1_def unmarshal_todoModel_def Hex_oid1)
  with del show ?thesis by simp
qed

subsection \<open>Create\<close>

lemmas create_eval =
  createTodo_def Decode_def unmarshal_def find_field_def todo_fields_def zero_todo_def
  Insert_def marshal_def env1_def oid1_def EqualFold_def

text \<open>
  C1. The claim: for every payload whose title is empty or missing, create and update
  each return a bad-request outcome and perform no storage write. \<^verbatim>\<open>updateTodo\<close> does
  so (\<open>updateTodo_empty_title\<close> below). \<^verbatim>\<open>createTodo\<close> answers 400 and, having no
  \<^verbatim>\<open>return\<close> there, inserts the record with the empty title and answers 200 as well.
\<close>

theorem createTodo_empty_title_inserts:
  "createTodo env1 post_empty [] =
     \<lparr>written = [JSON StatusBadRequest (M [(''message'', VString ''title is required'')]),
                 JSON StatusOK (M [(''message'', VString ''todo created successfully''),
                                   (''todo_id'', VString id1)])],
      store = [[(''_id'', BObjectId oid1), (''title'', BString []),
                (''completed'', BBool False), (''createAt'', BTime clock1)]],
      ending = Returned\<rparr>"
proof -
  have "Hex [0x5f, 0x1d, 0x7f, 0x3e, 0x8b, 0x2a, 0x4c, 0x00, 0x12, 0x34, 0x56, 0x78] = id1"
    using Hex_oid1 by (simp add: oid1_def)
  then show ?thesis
    by (simp add: create_eval post_empty_def)
qed

text \<open>The half of C1 that holds: an empty title ends \<^verbatim>\<open>updateTodo\<close> before any write.\<close>

lemma updateTodo_empty_title:
  assumes "Title (fst (Decode (Body r) zero_todo)) = []"
  shows "store (updateTodo e r docs) = docs \<and> ending (updateTodo e r docs) = Returned \<and>
         last (written (updateTodo e r docs)) =
           JSON StatusBadRequest (M [(''message'', VString ''the title field is required'')])"
proof (cases "Decode (Body r) zero_todo")
  case (Pair t derr)
  with assms have "Title t = []" by simp
  with Pair show ?thesis by (simp add: updateTodo_def Let_def)
qed

text \<open>
  The invariant under the other operations: \<^verbatim>\<open>deleteTodo\<close> and \<^verbatim>\<open>updateTodo\<close> keep
  it for every request, and \<^verbatim>\<open>createTodo\<close> keeps it when the decoded title is not
  empty.
\<close>

lemma remove_first_all: "list_all P xs \<Longrightarrow> list_all P (remove_first Q xs)"
  by (induction xs) auto

lemma replace_first_all: "list_all P xs \<Longrightarrow> P y \<Longrightarrow> list_all P (replace_first Q y xs)"
  by (induction xs) auto

lemma deleteTodo_keeps_titles:
  "titles_nonempty docs \<Longrightarrow> titles_nonempty (store (deleteTodo e r docs))"
  by (auto simp: titles_nonempty_def deleteTodo_def RemoveId_def Let_def remove_first_all
      split: option.splits)

lemma updateTodo_keeps_titles:
  assumes "titles_nonempty docs"
  shows "titles_nonempty (store (updateTodo e r docs))"
proof (cases "Decode (Body r) zero_todo")
  case (Pair t derr)
  show ?thesis
  proof (cases "Title t = []")
    case True
    with Pair assms show ?thesis by (simp add: updateTodo_def Let_def)
  next
    case False
    have upd: "titles_nonempty docs'"
      if "Update e oid (update_M e t) docs = (x, docs')"
      for oid x docs'
      using that assms False
      by (auto simp: titles_nonempty_def Update_def update_M_def replace_first_all
          unmarshal_todoModel_def split: option.splits if_splits)
    from Pair False assms show ?thesis
      by (auto simp: updateTodo_def Let_def split: option.splits prod.splits dest: upd)
  qed
qed

lemma createTodo_keeps_titles:
  assumes "titles_nonempty docs" and "Title (fst (Decode (Body r) zero_todo)) \<noteq> []"
  shows "titles_nonempty (store (createTodo e r docs))"
proof (cases "Decode (Body r) zero_todo")
  case (Pair t derr)
  with assms(2) have title: "Title t \<noteq> []" by simp
  have ins: "titles_nonempty docs'"
    if "Insert e (marshal \<lparr>ID_m = NewObjectId e, Title_m = Title t, Completed_m = False,
                           CreateAt_m = Now e\<rparr>) docs = (x, docs')"
    for x docs'
    using that assms(1) title
    by (auto simp: titles_nonempty_def Insert_def Let_def unmarshal_todoModel_def marshal_def
        split: option.splits if_splits)
  from Pair assms(1) title show ?thesis
    by (auto simp: createTodo_def Let_def split: option.splits prod.splits dest: ins)
qed

text \<open>
  C6. The claim: no stored record ever has an empty title; create, update and delete keep
  that invariant. The empty collection satisfies it, and one \<^verbatim>\<open>createTodo\<close> with an
  empty title breaks it.
\<close>

theorem createTodo_breaks_title_invariant:
  "titles_nonempty [] \<and> \<not> titles_nonempty (store (createTodo env1 post_empty []))"
  by (simp add: titles_nonempty_def create_eval post_empty_def unmarshal_todoModel_def)

text \<open>
  A decoding error ends \<^verbatim>\<open>createTodo\<close> with the answer of the error, before the title
  is looked at and before any write.
\<close>

lemma createTodo_decode_error:
  "Decode (Body r) zero_todo = (t, Some err) \<Longrightarrow>
   createTodo e r docs =
     \<lparr>written = [JSON StatusProcessing (DecodeError err)], store = docs, ending = Returned\<rparr>"
  by (simp add: createTodo_def)

text \<open>
  C8, as stated: for every create request with a non-empty title the operation persists a
  record with that title and answers with the new identifier, ignoring any id, completed
  or createdAt the client supplies. The body \<^verbatim>\<open>{"title":"buy milk","completed":"yes"}\<close>
  has a non-empty title, which the decoding stores in the wire record; its
  \<^verbatim>\<open>completed\<close> is no boolean, so the decoding returns an \<^verbatim>\<open>UnmarshalTypeError\<close>,
  and \<^verbatim>\<open>createTodo\<close> answers that error with status 102 and returns: the supplied
  value is not ignored, nothing is persisted and no identifier is returned.
\<close>

theorem createTodo_mistyped_not_persisted:
  "Title (fst (Decode (Body post_mistyped) zero_todo)) = ''buy milk'' \<and>
   createTodo env1 post_mistyped [] =
     \<lparr>written = [JSON StatusProcessing (DecodeError (UnmarshalTypeError ''string'' ''completed''))],
      store = [], ending = Returned\<rparr>"
  by (simp add: createTodo_def post_mistyped_def Decode_def unmarshal_def find_field_def
      todo_fields_def zero_todo_def EqualFold_def saveError_def)

text \<open>
  C8, amended: for every create request whose body decodes without error into a wire
  record with a non-empty title (so an id, completed or createAt it supplies has the
  JSON type of its field), when the insert succeeds (the storage call does not fail and
  the identifier \<^verbatim>\<open>bson.NewObjectId()\<close> returned, 12 bytes, is not in the collection):
  \<^verbatim>\<open>createTodo\<close> appends one document to the collection, which reads back as the record
  with the new identifier, that title, \<^verbatim>\<open>completed = false\<close> and \<^verbatim>\<open>createAt\<close> the
  current time, and answers 200 with the identifier in hex under \<^verbatim>\<open>todo_id\<close>. The
  \<^verbatim>\<open>id\<close>, \<^verbatim>\<open>completed\<close> and \<^verbatim>\<open>createAt\<close> of the wire record are used nowhere.
\<close>

theorem createTodo_persists:
  assumes "Decode (Body r) zero_todo = (t, None)"
    and "Title t \<noteq> []"
    and "storage_fault e = None"
    and "length (NewObjectId e) = 12"
    and "\<not> list_ex (has_id (NewObjectId e)) docs"
  shows "createTodo e r docs =
           \<lparr>written = [JSON StatusOK (M [(''message'', VString ''todo created successfully''),
                                         (''todo_id'', VString (Hex (NewObjectId e)))])],
            store = docs @ [marshal \<lparr>ID_m = NewObjectId e, Title_m = Title t,
                                     Completed_m = False, CreateAt_m = Now e\<rparr>],
            ending = Returned\<rparr> \<and>
         unmarshal_todoModel (marshal \<lparr>ID_m = NewObjectId e, Title_m = Title t,
                                       Completed_m = False, CreateAt_m = Now e\<rparr>) =
           \<lparr>ID_m = NewObjectId e, Title_m = Title t, Completed_m = False, CreateAt_m = Now e\<rparr>"
proof -
  let ?tm = "\<lparr>ID_m = NewObjectId e, Title_m = Title t, Completed_m = False, CreateAt_m = Now e\<rparr>"
  from assms(4) have nonempty: "NewObjectId e \<noteq> []" by auto
  then have key: "map_of (marshal ?tm) ''_id'' = Some (BObjectId (NewObjectId e))"
    by (simp add: marshal_def)
  have "(\<lambda>x. map_of x ''_id'' = Some (BObjectId (NewObjectId e))) = has_id (NewObjectId e)"
    by (simp add: has_id_def fun_eq_iff)
  with assms(3,5) key have ins: "Insert e (marshal ?tm) docs = (None, docs @ [marshal ?tm])"
    by (simp add: Insert_def)
  have reads: "unmarshal_todoModel (marshal ?tm) = ?tm"
    using nonempty by (simp add: unmarshal_todoModel_def marshal_def)
  from assms(1,2) ins have "createTodo e r docs =
           \<lparr>written = [JSON StatusOK (M [(''message'', VString ''todo created successfully''),
                                         (''todo_id'', VString (Hex (NewObjectId e)))])],
            store = docs @ [marshal ?tm], ending = Returned\<rparr>"
    by (simp add: createTodo_def)
  with reads show ?thesis by simp
qed

theorem createTodo_persists_witness:
  "Decode (Body post_full) zero_todo =
     (\<lparr>ID = ''abc'', Title = ''buy milk'', Completed = True, CreateAt = ''never''\<rparr>, None) \<and>
   createTodo env1 post_full [] =
     \<lparr>written = [JSON StatusOK (M [(''message'', VString ''todo created successfully''),
                                   (''todo_id'', VString id1)])],
      store = db1, ending = Returned\<rparr>"
proof -
  let ?t = "\<lparr>ID = ''abc'', Title = ''buy milk'', Completed = True, CreateAt = ''never''\<rparr>"
  have dec: "Decode (Body post_full) zero_todo = (?t, None)"
    by (simp add: post_full_def Decode_def unmarshal_def find_field_def todo_fields_def
        zero_todo_def EqualFold_def)
  have title: "Title ?t \<noteq> []" by simp
  have ok: "storage_fault env1 = None" by (simp add: env1_def)
  have len: "length (NewObjectId env1) = 12" by (simp add: env1_def oid1_def)
  have new: "\<not> list_ex (has_id (NewObjectId env1)) []" by simp
  have "NewObjectId env1 = oid1" "Now env1 = clock1" by (simp_all add: env1_def)
  moreover have "marshal \<lparr>ID_m = oid1, Title_m = ''buy milk'', Completed_m = False,
                          CreateAt_m = clock1\<rparr> = hd db1"
    by (simp add: marshal_def db1_def oid1_def)
  moreover have "db1 = [hd db1]" by (simp add: db1_def)
  ultimately show ?thesis
    using createTodo_persists [OF dec title ok len new] dec Hex_oid1 by simp
qed

subsection \<open>Update\<close>

lemmas update_eval =
  updateTodo_def Decode_def unmarshal_def find_field_def todo_fields_def zero_todo_def
  Update_def update_M_def has_id_def env1_def db1_def EqualFold_def TrimSpace_id1 id1_valid
  ObjectIdHex_id1

lemma Format_clock1: "Format clock1 = ''2024-03-09 07:05:00''"
  by (simp add: Format_def clock1_def appendInt_def digits.simps digit_def)

lemma Format_zero_Time: "Format zero_Time = ''0001-01-01 00:00:00''"
  by (simp add: Format_def zero_Time_def appendInt_def digits.simps digit_def numeral_3_eq_3)

text \<open>
  C3. The claim: a successful update of an existing record overwrites its title and
  completed only; its id and createdAt stay. \<^verbatim>\<open>updateTodo\<close> passes
  \<^verbatim>\<open>bson.M{"title": ..., "completed": ...}\<close> as the update document, without
  \<^verbatim>\<open>$set\<close>, which replaces the stored document: the identifier stays and
  \<^verbatim>\<open>createAt\<close> is gone. On \<open>db1\<close> the list shows the creation time before the update
  and the zero time after it.
\<close>

theorem updateTodo_drops_createAt:
  "written (fetchTodos env1 get_list db1) =
     [JSON StatusOK (M [(''data'', VTodos [\<lparr>ID = id1, Title = ''buy milk'', Completed = False,
                                             CreateAt = ''2024-03-09 07:05:00''\<rparr>])])] \<and>
   updateTodo env1 put_bread db1 =
     \<lparr>written = [],
      store = [[(''_id'', BObjectId oid1), (''title'', BString ''buy bread''),
                (''completed'', BBool True)]],
      ending = Returned\<rparr> \<and>
   written (fetchTodos env1 get_list (store (updateTodo env1 put_bread db1))) =
     [JSON StatusOK (M [(''data'', VTodos [\<lparr>ID = id1, Title = ''buy bread'', Completed = True,
                                             CreateAt = ''0001-01-01 00:00:00''\<rparr>])])]"
proof -
  have before: "written (fetchTodos env1 get_list db1) =
     [JSON StatusOK (M [(''data'', VTodos [\<lparr>ID = id1, Title = ''buy milk'', Completed = False,
                                             CreateAt = ''2024-03-09 07:05:00''\<rparr>])])]"
    by (simp add: fetchTodos_def Find_All_def env1_def db1_def unmarshal_todoModel_def
        Hex_oid1 Format_clock1)
  have upd: "updateTodo env1 put_bread db1 =
     \<lparr>written = [],
      store = [[(''_id'', BObjectId oid1), (''title'', BString ''buy bread''),
                (''completed'', BBool True)]],
      ending = Returned\<rparr>"
    by (simp add: update_eval put_bread_def bread_def)
  have "written (fetchTodos env1 get_list
          [[(''_id'', BObjectId oid1), (''title'', BString ''buy bread''),
            (''completed'', BBool True)]]) =
     [JSON StatusOK (M [(''data'', VTodos [\<lparr>ID = id1, Title = ''buy bread'', Completed = True,
                                             CreateAt = ''0001-01-01 00:00:00''\<rparr>])])]"
    by (simp add: fetchTodos_def Find_All_def env1_def unmarshal_todoModel_def
        Hex_oid1 Format_zero_Time)
  with before upd show ?thesis by simp
qed

text \<open>
  C5. The claim: every error of an operation becomes an HTTP response, and no input makes
  a handler panic. \<^verbatim>\<open>PUT /todo/abc\<close> with a title: \<^verbatim>\<open>updateTodo\<close> answers
  \<^verbatim>\<open>The id is invalid\<close>, does not return, and panics in \<^verbatim>\<open>bson.ObjectIdHex("abc")\<close>.
\<close>

theorem updateTodo_invalid_id_panics:
  "updateTodo env1 put_abc db1 =
     \<lparr>written = [JSON StatusBadRequest (M [(''message'', VString ''The id is invalid'')])],
      store = db1, ending = Panicked\<rparr>"
proof -
  have "ObjectIdHex ''abc'' = None"
    using abc_invalid by (rule ObjectIdHex_invalid)
  then show ?thesis
    by (simp add: updateTodo_def put_abc_def bread_def TrimSpace_abc abc_invalid Decode_def
        unmarshal_def find_field_def todo_fields_def zero_todo_def EqualFold_def)
qed




subsection \<open>List\<close>

lemma digit_mask: "d < 10 \<Longrightarrow> mask_digit (digit d) = CHR ''9''"
proof -
  assume "d < 10"
  then have "d \<in> {0, 1, 2, 3, 4, 5, 6, 7, 8, 9}" by auto
  then show ?thesis by (auto simp: digit_def mask_digit_def)
qed

lemma digits_mask: "map mask_digit (digits n) = replicate (length (digits n)) (CHR ''9'')"
proof (induction n rule: digits.induct)
  case (1 n)
  show ?case
  proof (cases "n < 10")
    case True
    then show ?thesis by (simp add: digits.simps [of n] digit_mask)
  next
    case False
    then have "map mask_digit (digits (n div 10)) =
               replicate (length (digits (n div 10))) (CHR ''9'')"
      using "1" by simp
    with False show ?thesis
      by (simp add: digits.simps [of n] digit_mask replicate_append_same)
  qed
qed

lemma digits_length: "n < 10 ^ k \<Longrightarrow> 0 < k \<Longrightarrow> length (digits n) \<le> k"
proof (induction n arbitrary: k rule: digits.induct)
  case (1 n)
  show ?case
  proof (cases "n < 10")
    case True
    with "1.prems" show ?thesis by (simp add: digits.simps [of n])
  next
    case False
    from "1.prems" obtain j where k: "k = Suc j"
      by (cases k) auto
    have j: "0 < j"
    proof (rule ccontr)
      assume "\<not> 0 < j"
      with "1.prems" k have "n < 10" by simp
      with False show False by simp
    qed
    from "1.prems" k have "n div 10 < 10 ^ j"
      by (simp add: less_mult_imp_div_less mult.commute)
    with "1.IH" False j have "length (digits (n div 10)) \<le> j" by simp
    with False k show ?thesis by (simp add: digits.simps [of n])
  qed
qed

lemma appendInt_mask:
  assumes "0 \<le> x" "nat x < 10 ^ w" "0 < w"
  shows "map mask_digit (appendInt x w) = replicate w (CHR ''9'')"
proof -
  have len: "length (digits (nat x)) \<le> w"
    using assms digits_length by simp
  have "map mask_digit (appendInt x w) =
        replicate (w - length (digits (nat x))) (CHR ''9'') @
        replicate (length (digits (nat x))) (CHR ''9'')"
    using assms(1) by (simp add: appendInt_def Let_def digits_mask mask_digit_def)
  also have "\<dots> = replicate w (CHR ''9'')"
    using len by (simp add: replicate_add [symmetric])
  finally show ?thesis .
qed

text \<open>A wall-clock time with a year from 0 to 9999 is formatted in the shape.\<close>

lemma Format_layout:
  assumes "wall_clock t" "four_digit_year t"
  shows "is_layout (Format t)"
proof -
  have y: "map mask_digit (appendInt (Year t) 4) = replicate 4 (CHR ''9'')"
    using assms(2) by (intro appendInt_mask) (auto simp: four_digit_year_def)
  have two: "map mask_digit (appendInt (int n) 2) = replicate 2 (CHR ''9'')" if "n < 100" for n
    using that by (intro appendInt_mask) auto
  have "Month t < 100" "Day t < 100" "Hour t < 100" "Minute t < 100" "Second t < 100"
    using assms(1) by (auto simp: wall_clock_def)
  moreover have "replicate 4 (CHR ''9'') = ''9999''" "replicate 2 (CHR ''9'') = ''99''"
    by (simp_all add: numeral_eq_Suc)
  ultimately show ?thesis
    using y by (simp add: is_layout_def Format_def two mask_digit_def)
qed

text \<open>
  C9. For every collection, when the scan and the rendering do not fail:
  \<^verbatim>\<open>fetchTodos\<close> writes one answer, 200 with the key \<^verbatim>\<open>data\<close>, holding one wire
  record per stored document in the order of the scan, with the identifier in hex, the
  title and completed copied, and the creation time formatted by the layout
  \<^verbatim>\<open>2006-01-02 15:04:05\<close>; it leaves the collection as it was and returns. The
  formatted time of every document whose time is a wall-clock time with a year from 0
  to 9999 has the shape \<^verbatim>\<open>YYYY-MM-DD HH:MM:SS\<close>.
\<close>

theorem fetchTodos_lists_all:
  assumes "storage_fault e = None"
    and "render_fault e = None"
  shows "fetchTodos e r docs =
           \<lparr>written =
              [JSON StatusOK
                 (M [(''data'',
                      VTodos (map (\<lambda>d. \<lparr>ID = Hex (ID_m (unmarshal_todoModel d)),
                                         Title = Title_m (unmarshal_todoModel d),
                                         Completed = Completed_m (unmarshal_todoModel d),
                                         CreateAt = Format (CreateAt_m (unmarshal_todoModel d))\<rparr>)
                                docs))])],
            store = docs, ending = Returned\<rparr> \<and>
         (\<forall>d \<in> set docs.
            wall_clock (CreateAt_m (unmarshal_todoModel d)) \<and>
            four_digit_year (CreateAt_m (unmarshal_todoModel d)) \<longrightarrow>
            is_layout (Format (CreateAt_m (unmarshal_todoModel d))))"
proof -
  from assms have "fetchTodos e r docs =
           \<lparr>written =
              [JSON StatusOK
                 (M [(''data'',
                      VTodos (map (\<lambda>d. \<lparr>ID = Hex (ID_m (unmarshal_todoModel d)),
                                         Title = Title_m (unmarshal_todoModel d),
                                         Completed = Completed_m (unmarshal_todoModel d),
                                         CreateAt = Format (CreateAt_m (unmarshal_todoModel d))\<rparr>)
                                docs))])],
            store = docs, ending = Returned\<rparr>"
    by (simp add: fetchTodos_def Find_All_def comp_def)
  then show ?thesis
    by (simp add: Format_layout)
qed

theorem fetchTodos_lists_all_witness:
  "storage_fault env1 = None \<and> render_fault env1 = None \<and>
   fetchTodos env1 get_list db1 =
     \<lparr>written =
        [JSON StatusOK (M [(''data'', VTodos [\<lparr>ID = id1, Title = ''buy milk'', Completed = False,
                                                CreateAt = ''2024-03-09 07:05:00''\<rparr>])])],
      store = db1, ending = Returned\<rparr> \<and>
   wall_clock clock1 \<and> four_digit_year clock1 \<and> is_layout ''2024-03-09 07:05:00''"
proof -
  have s: "storage_fault env1 = None" and f: "render_fault env1 = None"
    by (simp_all add: env1_def)
  have rec: "unmarshal_todoModel (hd db1) =
          \<lparr>ID_m = oid1, Title_m = ''buy milk'', Completed_m = False, CreateAt_m = clock1\<rparr>"
    by (simp add: db1_def unmarshal_todoModel_def)
  have db: "db1 = [hd db1]"
    by (simp add: db1_def)
  have clock: "wall_clock clock1" "four_digit_year clock1"
    by (simp_all add: wall_clock_def four_digit_year_def clock1_def)
  have m: "hd db1 \<in> set db1"
    by (simp add: db1_def)
  note all = fetchTodos_lists_all [OF s f, of get_list db1]
  from all m rec clock have "is_layout (Format clock1)"
    by auto
  then have shape: "is_layout ''2024-03-09 07:05:00''"
    by (simp add: Format_clock1)
  have "map (\<lambda>d. \<lparr>ID = Hex (ID_m (unmarshal_todoModel d)),
                    Title = Title_m (unmarshal_todoModel d),
                    Completed = Completed_m (unmarshal_todoModel d),
                    CreateAt = Format (CreateAt_m (unmarshal_todoModel d))\<rparr>) db1 =
        [\<lparr>ID = id1, Title = ''buy milk'', Completed = False,
          CreateAt = ''2024-03-09 07:05:00''\<rparr>]"
    by (subst db) (simp add: rec Hex_oid1 Format_clock1)
  with all s f clock shape show ?thesis by simp
qed

end
